theory Spec2Isabelle
  imports Main
begin

section \<open>The collateral facet binding: data\<close>

text \<open>
  The module \<^verbatim>\<open>aavegotchi/collateralFacet.ts\<close> exports eight asynchronous wrappers. They
  reach three things outside themselves: the contract binding \<^verbatim>\<open>collateralFacet\<close>, which
  the module creates once and keeps in a top-level constant, the imported \<^verbatim>\<open>PROVIDER\<close>, and
  the console. What these do is not the module's: it is the environment, a parameter of the
  model, acting on a world state \<open>'s\<close>.

  Wrapper arguments are TypeScript \<^verbatim>\<open>number\<close>s; the module does no arithmetic on them, so
  they are carried as integers. The values the chain returns as \<^verbatim>\<open>BigNumber\<close> (gas price,
  balance) are integers as well.
\<close>

type_synonym address = string
type_synonym number = int
type_synonym bignumber = int

subsection \<open>Thrown values\<close>

text \<open>
  A promise can reject with any value, and the wrappers catch \<^verbatim>\<open>error: any\<close>. The model
  tells the values apart as far as \<^verbatim>\<open>new Error(error)\<close> does:
  \<^item> \<^verbatim>\<open>undefined\<close>;
  \<^item> a symbol, which cannot be converted to a string;
  \<^item> an \<^verbatim>\<open>Error\<close> instance, with its name, its message, its further own fields (ethers
    attaches \<^verbatim>\<open>code\<close>, \<^verbatim>\<open>reason\<close>, ...) and its stack, of which the model keeps where it
    was captured;
  \<^item> any other value (\<^verbatim>\<open>null\<close>, a boolean, a number, a string, a plain object, an array),
    given by the string it converts to: \<^verbatim>\<open>[object Object]\<close> for a plain object.

  An object whose own \<^verbatim>\<open>toString\<close> runs code of its own is not among them.
\<close>

datatype site = RemoteCode | CatchBlock

datatype js_value =
    Undefined
  | Symbol
  | ErrorInstance (err_name: string) (err_message: string)
      (err_fields: "(string \<times> string) list") (err_stack: site)
  | Other string

text \<open>
  The string conversion of a value, \<^verbatim>\<open>String(v)\<close> for all values but symbols, for which the
  conversion that \<^verbatim>\<open>new Error\<close> applies throws a \<^verbatim>\<open>TypeError\<close> (\<open>Inl\<close>). An
  \<^verbatim>\<open>Error\<close> instance converts by \<^verbatim>\<open>Error.prototype.toString\<close>.
\<close>

definition ToString :: "js_value \<Rightarrow> js_value + string" where
  "ToString v =
     (case v of
        Undefined \<Rightarrow> Inr ''undefined''
      | Symbol \<Rightarrow>
          Inl (ErrorInstance ''TypeError'' ''Cannot convert a Symbol value to a string'' []
                 CatchBlock)
      | ErrorInstance name msg fields stack \<Rightarrow>
          Inr (if name = [] then msg else if msg = [] then name else name @ '': '' @ msg)
      | Other s \<Rightarrow> Inr s)"

text \<open>
  \<^verbatim>\<open>new Error(message)\<close>, evaluated in a catch block: when the argument is \<^verbatim>\<open>undefined\<close>
  the new error gets no message of its own and reads as the empty one; otherwise the
  argument is converted to a string, which may throw (\<open>Inl\<close>).
\<close>

definition new_Error :: "js_value \<Rightarrow> js_value + js_value" where
  "new_Error message =
     (if message = Undefined then Inr (ErrorInstance ''Error'' [] [] CatchBlock)
      else case ToString message of
             Inl thrown \<Rightarrow> Inl thrown
           | Inr msg \<Rightarrow> Inr (ErrorInstance ''Error'' msg [] CatchBlock))"

text \<open>What the statement \<^verbatim>\<open>throw new Error(error)\<close> throws.\<close>

definition rethrown :: "js_value \<Rightarrow> js_value" where
  "rethrown error = (case new_Error error of Inl thrown \<Rightarrow> thrown | Inr e \<Rightarrow> e)"

subsection \<open>Contract data\<close>

text \<open>
  \<^verbatim>\<open>AavegotchiCollateralTypeIO\<close> is declared in \<^verbatim>\<open>./types\<close>; this module reads its two
  fields and nothing inside them, so the type of \<^verbatim>\<open>collateralTypeInfo\<close> is the parameter \<open>'i\<close>.
  A decoded contract result carries more than its named fields (the positional entries);
  that part is the record extension \<open>'m\<close>.
\<close>

record 'i AavegotchiCollateralTypeIO =
  collateralType :: address
  collateralTypeInfo :: 'i

text \<open>
  The decoded result of the contract's \<^verbatim>\<open>collateralBalance\<close>. Its fields are
  \<^verbatim>\<open>collateralType_\<close>, \<^verbatim>\<open>escrow_\<close> and \<^verbatim>\<open>balance_\<close>; an identifier cannot end in an
  underscore here, so the underscore is written \<open>_ret\<close>.
\<close>

record balance_result =
  collateralType_ret :: address
  escrow_ret :: address
  balance_ret :: bignumber

text \<open>The object literal that the wrapper \<^verbatim>\<open>collateralBalance\<close> returns.\<close>

record collateral_balance =
  collateralType :: address
  escrow :: address
  balance :: bignumber

datatype tx = TransactionResponse (hash: string)

datatype receipt = TransactionReceipt (status: int)

subsection \<open>The environment\<close>

text \<open>
  Calling a method of the binding sends the request and returns a promise at once; the
  answer is there when the promise is awaited. Both steps act on the world. A promise is
  what awaiting it does: it settles with a rejection (\<open>Inl\<close>) or a value (\<open>Inr\<close>).
\<close>

type_synonym ('s, 'a) promise = "'s \<Rightarrow> (js_value + 'a) \<times> 's"

type_synonym ('s, 'a) method_call = "'s \<Rightarrow> ('s, 'a) promise \<times> 's"

text \<open>The \<^verbatim>\<open>ethers.Contract\<close> built from the facet's ABI: one method for each function.\<close>

record ('s, 'i, 'm) contract =
  remote_collaterals :: "number \<Rightarrow> ('s, address list) method_call"
  remote_collateralInfo ::
    "number \<Rightarrow> number \<Rightarrow> ('s, ('i, 'm) AavegotchiCollateralTypeIO_scheme) method_call"
  remote_getCollateralInfo ::
    "number \<Rightarrow> ('s, ('i, 'm) AavegotchiCollateralTypeIO_scheme list) method_call"
  remote_getAllCollateralTypes :: "('s, address list) method_call"
  remote_collateralBalance :: "number \<Rightarrow> ('s, 'm balance_result_scheme) method_call"
  remote_increaseStake :: "number \<Rightarrow> number \<Rightarrow> bignumber \<Rightarrow> ('s, tx) method_call"
  remote_decreaseStake :: "number \<Rightarrow> number \<Rightarrow> bignumber \<Rightarrow> ('s, tx) method_call"
  remote_decreaseAndDestroy :: "number \<Rightarrow> number \<Rightarrow> bignumber \<Rightarrow> ('s, tx) method_call"

text \<open>
  The provider: \<^verbatim>\<open>getGasPrice\<close>, and the confirmation that \<^verbatim>\<open>wait\<close> of a transaction
  response asks it for.
\<close>

record 's provider =
  provider_getGasPrice :: "('s, bignumber) method_call"
  tx_wait :: "tx \<Rightarrow> ('s, receipt) method_call"

text \<open>The lines written by \<^verbatim>\<open>console.log\<close>, with the values they interpolate.\<close>

datatype log_line =
    Increasing number number
  | Reducing number number
  | Destroying number number
  | GasPriceInGwei bignumber
  | TransactionValidated

text \<open>
  The bindings of the module's scope that the wrappers read: its own top-level constant and
  what it imports or finds global. The module declares nothing else at top level. A module
  that kept anything more (a cache, a counter) would hold it in the extension of this record.
\<close>

record ('s, 'i, 'm) bindings =
  collateralFacet :: "('s, 'i, 'm) contract"
  PROVIDER :: "'s provider"
  console :: "log_line \<Rightarrow> 's \<Rightarrow> 's"

section \<open>Asynchronous code as state passing\<close>

text \<open>
  The body of an \<^verbatim>\<open>async\<close> function runs in program order. Its state is the module's
  bindings, which it could assign, and the world, which it reaches through them only. The
  outcome is \<open>Inl\<close> for a throw and \<open>Inr\<close> for a value.
\<close>

type_synonym ('b, 's, 'a) async = "'b \<times> 's \<Rightarrow> (js_value + 'a) \<times> 'b \<times> 's"

definition return_async :: "'a \<Rightarrow> ('b, 's, 'a) async" where
  "return_async a = (\<lambda>st. (Inr a, st))"

definition throw_async :: "js_value \<Rightarrow> ('b, 's, 'a) async" where
  "throw_async e = (\<lambda>st. (Inl e, st))"

definition bind_async ::
  "('b, 's, 'a) async \<Rightarrow> ('a \<Rightarrow> ('b, 's, 'c) async) \<Rightarrow> ('b, 's, 'c) async" where
  "bind_async m f =
     (\<lambda>st. case m st of (Inl e, st') \<Rightarrow> (Inl e, st') | (Inr a, st') \<Rightarrow> f a st')"

definition try_catch ::
  "('b, 's, 'a) async \<Rightarrow> (js_value \<Rightarrow> ('b, 's, 'a) async) \<Rightarrow> ('b, 's, 'a) async" where
  "try_catch body handler =
     (\<lambda>st. case body st of (Inl e, st') \<Rightarrow> handler e st' | (Inr a, st') \<Rightarrow> (Inr a, st'))"

text \<open>\<^verbatim>\<open>throw new Error(error)\<close>: building the error may itself throw.\<close>

definition throw_new_Error :: "js_value \<Rightarrow> ('b, 's, 'a) async" where
  "throw_new_Error error =
     (case new_Error error of Inl thrown \<Rightarrow> throw_async thrown | Inr e \<Rightarrow> throw_async e)"

text \<open>\<^verbatim>\<open>console.log(...)\<close>: the console is looked up in scope and written to.\<close>

definition console_log :: "log_line \<Rightarrow> (('s, 'i, 'm, 'z) bindings_scheme, 's, unit) async" where
  "console_log l = (\<lambda>(M, s). (Inr (), (M, console M l s)))"

text \<open>
  A method call \<^verbatim>\<open>obj.method(args)\<close>: the callee is read from the scope, the call is made
  and its promise is the value.
\<close>

definition invoke :: "('b \<Rightarrow> ('s, 'a) method_call) \<Rightarrow> ('b, 's, ('s, 'a) promise) async" where
  "invoke callee = (\<lambda>(M, s). case callee M s of (p, s') \<Rightarrow> (Inr p, (M, s')))"

text \<open>
  \<^verbatim>\<open>await promise\<close>: the function is suspended until the promise settles, and goes on with
  the value or throws the rejection.
\<close>

definition await :: "('s, 'a) promise \<Rightarrow> ('b, 's, 'a) async" where
  "await p = (\<lambda>(M, s). case p s of (r, s') \<Rightarrow> (r, (M, s')))"

section \<open>The wrappers\<close>

subsection \<open>Read\<close>

definition collaterals ::
  "number \<Rightarrow> (('s, 'i, 'm, 'z) bindings_scheme, 's, address list) async" where
  "collaterals hauntId =
     try_catch
       (bind_async (invoke (\<lambda>M. remote_collaterals (collateralFacet M) hauntId)) (\<lambda>promise.
        bind_async (await promise) (\<lambda>ret.
        return_async ret)))
       (\<lambda>error. throw_new_Error error)"

definition collateralInfo ::
  "number \<Rightarrow> number \<Rightarrow>
     (('s, 'i, 'm, 'z) bindings_scheme, 's, 'i AavegotchiCollateralTypeIO) async" where
  "collateralInfo hauntId collateralId =
     try_catch
       (bind_async
          (invoke (\<lambda>M. remote_collateralInfo (collateralFacet M) hauntId collateralId)) (\<lambda>promise.
        bind_async (await promise) (\<lambda>ret.
        return_async
          \<lparr>AavegotchiCollateralTypeIO.collateralType = AavegotchiCollateralTypeIO.collateralType ret,
           collateralTypeInfo = collateralTypeInfo ret\<rparr>)))
       (\<lambda>error. throw_new_Error error)"

definition getCollateralInfo ::
  "number \<Rightarrow>
     (('s, 'i, 'm, 'z) bindings_scheme, 's, 'i AavegotchiCollateralTypeIO list) async" where
  "getCollateralInfo hauntId =
     try_catch
       (bind_async (invoke (\<lambda>M. remote_getCollateralInfo (collateralFacet M) hauntId)) (\<lambda>promise.
        bind_async (await promise) (\<lambda>ret.
        return_async
          (map (\<lambda>c. \<lparr>AavegotchiCollateralTypeIO.collateralType =
                        AavegotchiCollateralTypeIO.collateralType c,
                      collateralTypeInfo = collateralTypeInfo c\<rparr>) ret))))
       (\<lambda>error. throw_new_Error error)"

definition getAllCollateralTypes ::
  "(('s, 'i, 'm, 'z) bindings_scheme, 's, address list) async" where
  "getAllCollateralTypes =
     try_catch
       (bind_async (invoke (\<lambda>M. remote_getAllCollateralTypes (collateralFacet M))) (\<lambda>promise.
        bind_async (await promise) (\<lambda>allCollaterals.
        return_async allCollaterals)))
       (\<lambda>error. throw_new_Error error)"

definition collateralBalance ::
  "number \<Rightarrow> (('s, 'i, 'm, 'z) bindings_scheme, 's, collateral_balance) async" where
  "collateralBalance tokenId =
     try_catch
       (bind_async (invoke (\<lambda>M. remote_collateralBalance (collateralFacet M) tokenId)) (\<lambda>promise.
        bind_async (await promise) (\<lambda>ret.
        return_async
          \<lparr>collateral_balance.collateralType = collateralType_ret ret,
           escrow = escrow_ret ret, balance = balance_ret ret\<rparr>)))
       (\<lambda>error. throw_new_Error error)"

subsection \<open>Write\<close>

definition increaseStake ::
  "number \<Rightarrow> number \<Rightarrow> (('s, 'i, 'm, 'z) bindings_scheme, 's, unit) async" where
  "increaseStake tokenId stakeAmount =
     try_catch
       (bind_async (console_log (Increasing tokenId stakeAmount)) (\<lambda>_.
        bind_async (invoke (\<lambda>M. provider_getGasPrice (PROVIDER M))) (\<lambda>promise.
        bind_async (await promise) (\<lambda>gasPrice.
        bind_async (console_log (GasPriceInGwei gasPrice)) (\<lambda>_.
        bind_async
          (invoke (\<lambda>M. remote_increaseStake (collateralFacet M) tokenId stakeAmount gasPrice))
          (\<lambda>promise.
        bind_async (await promise) (\<lambda>tx.
        bind_async (invoke (\<lambda>M. tx_wait (PROVIDER M) tx)) (\<lambda>promise.
        bind_async (await promise) (\<lambda>_.
        console_log TransactionValidated)))))))))
       (\<lambda>error. throw_new_Error error)"

definition decreaseStake ::
  "number \<Rightarrow> number \<Rightarrow> (('s, 'i, 'm, 'z) bindings_scheme, 's, unit) async" where
  "decreaseStake tokenId reduceAmount =
     try_catch
       (bind_async (console_log (Reducing tokenId reduceAmount)) (\<lambda>_.
        bind_async (invoke (\<lambda>M. provider_getGasPrice (PROVIDER M))) (\<lambda>promise.
        bind_async (await promise) (\<lambda>gasPrice.
        bind_async (console_log (GasPriceInGwei gasPrice)) (\<lambda>_.
        bind_async
          (invoke (\<lambda>M. remote_decreaseStake (collateralFacet M) tokenId reduceAmount gasPrice))
          (\<lambda>promise.
        bind_async (await promise) (\<lambda>tx.
        bind_async (invoke (\<lambda>M. tx_wait (PROVIDER M) tx)) (\<lambda>promise.
        bind_async (await promise) (\<lambda>_.
        console_log TransactionValidated)))))))))
       (\<lambda>error. throw_new_Error error)"

definition decreaseAndDestroy ::
  "number \<Rightarrow> number \<Rightarrow> (('s, 'i, 'm, 'z) bindings_scheme, 's, unit) async" where
  "decreaseAndDestroy tokenId toId =
     try_catch
       (bind_async (console_log (Destroying tokenId toId)) (\<lambda>_.
        bind_async (invoke (\<lambda>M. provider_getGasPrice (PROVIDER M))) (\<lambda>promise.
        bind_async (await promise) (\<lambda>gasPrice.
        bind_async (console_log (GasPriceInGwei gasPrice)) (\<lambda>_.
        bind_async
          (invoke (\<lambda>M. remote_decreaseAndDestroy (collateralFacet M) tokenId toId gasPrice))
          (\<lambda>promise.
        bind_async (await promise) (\<lambda>tx.
        bind_async (invoke (\<lambda>M. tx_wait (PROVIDER M) tx)) (\<lambda>promise.
        bind_async (await promise) (\<lambda>_.
        console_log TransactionValidated)))))))))
       (\<lambda>error. throw_new_Error error)"

section \<open>The module's exports, uniformly\<close>

text \<open>
  One invocation of an exported wrapper: which wrapper, and its argument tuple. The value a
  wrapper fulfils with is tagged by its shape; the write wrappers fulfil with no value.
\<close>

datatype wrapper_call =
    Call_collaterals number
  | Call_collateralInfo number number
  | Call_getCollateralInfo number
  | Call_getAllCollateralTypes
  | Call_collateralBalance number
  | Call_increaseStake number number
  | Call_decreaseStake number number
  | Call_decreaseAndDestroy number number

datatype 'i returned =
    ReturnedAddresses "address list"
  | ReturnedInfo "'i AavegotchiCollateralTypeIO"
  | ReturnedInfos "'i AavegotchiCollateralTypeIO list"
  | ReturnedBalance collateral_balance
  | ReturnedVoid

definition tagged :: "('a \<Rightarrow> 'i returned) \<Rightarrow> ('b, 's, 'a) async \<Rightarrow> ('b, 's, 'i returned) async" where
  "tagged f m =
     (\<lambda>st. case m st of (Inl e, st') \<Rightarrow> (Inl e, st') | (Inr a, st') \<Rightarrow> (Inr (f a), st'))"

fun invoke_wrapper ::
  "wrapper_call \<Rightarrow> (('s, 'i, 'm, 'z) bindings_scheme, 's, 'i returned) async" where
  "invoke_wrapper (Call_collaterals hauntId) = tagged ReturnedAddresses (collaterals hauntId)"
| "invoke_wrapper (Call_collateralInfo hauntId collateralId) =
     tagged ReturnedInfo (collateralInfo hauntId collateralId)"
| "invoke_wrapper (Call_getCollateralInfo hauntId) =
     tagged ReturnedInfos (getCollateralInfo hauntId)"
| "invoke_wrapper Call_getAllCollateralTypes = tagged ReturnedAddresses getAllCollateralTypes"
| "invoke_wrapper (Call_collateralBalance tokenId) =
     tagged ReturnedBalance (collateralBalance tokenId)"
| "invoke_wrapper (Call_increaseStake tokenId stakeAmount) =
     tagged (\<lambda>_. ReturnedVoid) (increaseStake tokenId stakeAmount)"
| "invoke_wrapper (Call_decreaseStake tokenId reduceAmount) =
     tagged (\<lambda>_. ReturnedVoid) (decreaseStake tokenId reduceAmount)"
| "invoke_wrapper (Call_decreaseAndDestroy tokenId toId) =
     tagged (\<lambda>_. ReturnedVoid) (decreaseAndDestroy tokenId toId)"

fun wrapper_name :: "wrapper_call \<Rightarrow> string" where
  "wrapper_name (Call_collaterals _) = ''collaterals''"
| "wrapper_name (Call_collateralInfo _ _) = ''collateralInfo''"
| "wrapper_name (Call_getCollateralInfo _) = ''getCollateralInfo''"
| "wrapper_name Call_getAllCollateralTypes = ''getAllCollateralTypes''"
| "wrapper_name (Call_collateralBalance _) = ''collateralBalance''"
| "wrapper_name (Call_increaseStake _ _) = ''increaseStake''"
| "wrapper_name (Call_decreaseStake _ _) = ''decreaseStake''"
| "wrapper_name (Call_decreaseAndDestroy _ _) = ''decreaseAndDestroy''"

fun wrapper_args :: "wrapper_call \<Rightarrow> number list" where
  "wrapper_args (Call_collaterals hauntId) = [hauntId]"
| "wrapper_args (Call_collateralInfo hauntId collateralId) = [hauntId, collateralId]"
| "wrapper_args (Call_getCollateralInfo hauntId) = [hauntId]"
| "wrapper_args Call_getAllCollateralTypes = []"
| "wrapper_args (Call_collateralBalance tokenId) = [tokenId]"
| "wrapper_args (Call_increaseStake tokenId stakeAmount) = [tokenId, stakeAmount]"
| "wrapper_args (Call_decreaseStake tokenId reduceAmount) = [tokenId, reduceAmount]"
| "wrapper_args (Call_decreaseAndDestroy tokenId toId) = [tokenId, toId]"

fun is_write :: "wrapper_call \<Rightarrow> bool" where
  "is_write (Call_increaseStake _ _) = True"
| "is_write (Call_decreaseStake _ _) = True"
| "is_write (Call_decreaseAndDestroy _ _) = True"
| "is_write _ = False"

definition settlement :: "'r \<times> 'b \<times> 's \<Rightarrow> 'r" where
  "settlement out = fst out"

definition bindings_after :: "'r \<times> 'b \<times> 's \<Rightarrow> 'b" where
  "bindings_after out = fst (snd out)"

definition world_after :: "'r \<times> 'b \<times> 's \<Rightarrow> 's" where
  "world_after out = snd (snd out)"

text \<open>A call made and awaited at once: what the remote answers, and the world it leaves.\<close>

definition settle :: "('s, 'a) method_call \<Rightarrow> 's \<Rightarrow> (js_value + 'a) \<times> 's" where
  "settle call s = (case call s of (p, s') \<Rightarrow> p s')"

section \<open>What the environment sees\<close>

text \<open>
  The wrappers keep no record of what they do. The environment can: \<open>observed M\<close> behaves
  as \<open>M\<close> does and adds a log to the world, into which each method writes, when it is
  called, the request it has received with the arguments it has received, and each promise
  writes, when it is awaited, what it settles with. The console writes its lines there too.
  The log is written by the environment alone, from what reaches it.
\<close>

datatype arg = Number number | Overrides (gasPrice: bignumber)

datatype request = ContractCall string "arg list" | GetGasPrice | TxWait tx

datatype ('i, 'm) response =
    Addresses "address list"
  | Struct "('i, 'm) AavegotchiCollateralTypeIO_scheme"
  | Structs "('i, 'm) AavegotchiCollateralTypeIO_scheme list"
  | BalanceTuple "'m balance_result_scheme"
  | GasPrice bignumber
  | Submitted tx
  | Mined receipt

datatype ('i, 'm) event =
    Log log_line
  | Invoke request
  | Settle request "js_value + ('i, 'm) response"

definition observe ::
  "request \<Rightarrow> ('a \<Rightarrow> ('i, 'm) response) \<Rightarrow> ('s, 'a) method_call \<Rightarrow>
     ('s \<times> ('i, 'm) event list, 'a) method_call" where
  "observe rq tag call =
     (\<lambda>(s, tr). case call s of
        (p, s') \<Rightarrow>
          (\<lambda>(s2, tr2). case p s2 of
             (Inl e, s3) \<Rightarrow> (Inl e, (s3, tr2 @ [Settle rq (Inl e)]))
           | (Inr a, s3) \<Rightarrow> (Inr a, (s3, tr2 @ [Settle rq (Inr (tag a))])),
           (s', tr @ [Invoke rq])))"

definition observed ::
  "('s, 'i, 'm) bindings \<Rightarrow> ('s \<times> ('i, 'm) event list, 'i, 'm) bindings" where
  "observed M =
     \<lparr>collateralFacet =
        \<lparr>remote_collaterals = (\<lambda>a.
           observe (ContractCall ''collaterals'' [Number a]) Addresses
             (remote_collaterals (collateralFacet M) a)),
         remote_collateralInfo = (\<lambda>a b.
           observe (ContractCall ''collateralInfo'' [Number a, Number b]) Struct
             (remote_collateralInfo (collateralFacet M) a b)),
         remote_getCollateralInfo = (\<lambda>a.
           observe (ContractCall ''getCollateralInfo'' [Number a]) Structs
             (remote_getCollateralInfo (collateralFacet M) a)),
         remote_getAllCollateralTypes =
           observe (ContractCall ''getAllCollateralTypes'' []) Addresses
             (remote_getAllCollateralTypes (collateralFacet M)),
         remote_collateralBalance = (\<lambda>a.
           observe (ContractCall ''collateralBalance'' [Number a]) BalanceTuple
             (remote_collateralBalance (collateralFacet M) a)),
         remote_increaseStake = (\<lambda>a b g.
           observe (ContractCall ''increaseStake'' [Number a, Number b, Overrides g]) Submitted
             (remote_increaseStake (collateralFacet M) a b g)),
         remote_decreaseStake = (\<lambda>a b g.
           observe (ContractCall ''decreaseStake'' [Number a, Number b, Overrides g]) Submitted
             (remote_decreaseStake (collateralFacet M) a b g)),
         remote_decreaseAndDestroy = (\<lambda>a b g.
           observe (ContractCall ''decreaseAndDestroy'' [Number a, Number b, Overrides g]) Submitted
             (remote_decreaseAndDestroy (collateralFacet M) a b g))\<rparr>,
      PROVIDER =
        \<lparr>provider_getGasPrice = observe GetGasPrice GasPrice (provider_getGasPrice (PROVIDER M)),
         tx_wait = (\<lambda>t. observe (TxWait t) Mined (tx_wait (PROVIDER M) t))\<rparr>,
      console = (\<lambda>l (s, tr). (console M l s, tr @ [Log l]))\<rparr>"

text \<open>What the environment logs while a wrapper runs from the world \<open>s\<close>.\<close>

definition recorded ::
  "wrapper_call \<Rightarrow> ('s, 'i, 'm) bindings \<Rightarrow> 's \<Rightarrow> ('i, 'm) event list" where
  "recorded c M s = snd (world_after (invoke_wrapper c (observed M, (s, []))))"

subsection \<open>Reading a log\<close>

text \<open>The contract methods called, in order: method name and the arguments received.\<close>

fun contract_invocations :: "('i, 'm) event list \<Rightarrow> (string \<times> arg list) list" where
  "contract_invocations [] = []"
| "contract_invocations (Invoke (ContractCall m as) # tr) = (m, as) # contract_invocations tr"
| "contract_invocations (_ # tr) = contract_invocations tr"

text \<open>Every request made, in order.\<close>

fun invoked :: "('i, 'm) event list \<Rightarrow> request list" where
  "invoked [] = []"
| "invoked (Invoke rq # tr) = rq # invoked tr"
| "invoked (_ # tr) = invoked tr"

text \<open>The gas prices that the contract methods received in their overrides.\<close>

definition gas_price_overrides :: "('i, 'm) event list \<Rightarrow> bignumber list" where
  "gas_price_overrides tr =
     concat (map (\<lambda>(m, as). concat (map (\<lambda>a. case a of Overrides g \<Rightarrow> [g] | Number _ \<Rightarrow> []) as))
               (contract_invocations tr))"

text \<open>How often the provider was asked for the gas price, and what it answered.\<close>

fun gas_price_queries :: "('i, 'm) event list \<Rightarrow> nat" where
  "gas_price_queries [] = 0"
| "gas_price_queries (Invoke GetGasPrice # tr) = Suc (gas_price_queries tr)"
| "gas_price_queries (_ # tr) = gas_price_queries tr"

fun gas_prices_answered :: "('i, 'm) event list \<Rightarrow> bignumber list" where
  "gas_prices_answered [] = []"
| "gas_prices_answered (Settle GetGasPrice (Inr (GasPrice g)) # tr) = g # gas_prices_answered tr"
| "gas_prices_answered (_ # tr) = gas_prices_answered tr"

text \<open>What the awaited promises settled with, in order, and the rejections among them.\<close>

fun responses :: "('i, 'm) event list \<Rightarrow> (js_value + ('i, 'm) response) list" where
  "responses [] = []"
| "responses (Settle _ out # tr) = out # responses tr"
| "responses (_ # tr) = responses tr"


text \<open>
  \<open>not_before P Q tr\<close>: no event satisfying \<open>Q\<close> occurs in \<open>tr\<close> unless an event
  satisfying \<open>P\<close> has occurred earlier.
\<close>

fun not_before :: "('a \<Rightarrow> bool) \<Rightarrow> ('a \<Rightarrow> bool) \<Rightarrow> 'a list \<Rightarrow> bool" where
  "not_before P Q [] = True"
| "not_before P Q (x # xs) = (if P x then True else \<not> Q x \<and> not_before P Q xs)"

text \<open>
  \<open>one_at_a_time tr\<close>: every request made is settled before anything else happens, so that
  no two requests are ever under way together.
\<close>

fun one_at_a_time :: "('i, 'm) event list \<Rightarrow> bool" where
  "one_at_a_time [] = True"
| "one_at_a_time (Log _ # tr) = one_at_a_time tr"
| "one_at_a_time (Invoke rq # Settle rq' _ # tr) = (rq = rq' \<and> one_at_a_time tr)"
| "one_at_a_time _ = False"

fun is_contract_invoke :: "('i, 'm) event \<Rightarrow> bool" where
  "is_contract_invoke (Invoke (ContractCall _ _)) = True"
| "is_contract_invoke _ = False"

fun is_gas_price_settled :: "('i, 'm) event \<Rightarrow> bool" where
  "is_gas_price_settled (Settle GetGasPrice (Inr (GasPrice _))) = True"
| "is_gas_price_settled _ = False"

fun is_wait_invoke :: "('i, 'm) event \<Rightarrow> bool" where
  "is_wait_invoke (Invoke (TxWait _)) = True"
| "is_wait_invoke _ = False"

fun is_contract_settled :: "('i, 'm) event \<Rightarrow> bool" where
  "is_contract_settled (Settle (ContractCall _ _) (Inr (Submitted _))) = True"
| "is_contract_settled _ = False"

fun is_wait_settled :: "('i, 'm) event \<Rightarrow> bool" where
  "is_wait_settled (Settle (TxWait _) (Inr (Mined _))) = True"
| "is_wait_settled _ = False"

subsection \<open>Environments to run the wrappers in\<close>

text \<open>
  A chain with one staked gotchi. The world is the stake and the number of transactions
  sent. The same chain behind a provider that cannot be reached, and behind one that
  rejects with no value at all.
\<close>

record chain =
  stake :: int
  nonce :: nat

definition network_error :: js_value where
  "network_error =
     ErrorInstance ''Error'' ''could not detect network'' [(''code'', ''NETWORK_ERROR'')] RemoteCode"

definition revert_error :: js_value where
  "revert_error =
     ErrorInstance ''Error'' ''transaction failed'' [(''code'', ''CALL_EXCEPTION'')] RemoteCode"

definition answering :: "'a \<Rightarrow> ('s, 'a) method_call" where
  "answering a = (\<lambda>s. (\<lambda>s'. (Inr a, s'), s))"

definition rejecting :: "js_value \<Rightarrow> ('s, 'a) method_call" where
  "rejecting e = (\<lambda>s. (\<lambda>s'. (Inl e, s'), s))"

definition demo_contract :: "(chain, string, nat list) contract" where
  "demo_contract =
     \<lparr>remote_collaterals = (\<lambda>h. answering [''0xA'', ''0xB'']),
      remote_collateralInfo = (\<lambda>h c.
        answering \<lparr>AavegotchiCollateralTypeIO.collateralType = ''0xA'',
                   collateralTypeInfo = ''maDAI'', \<dots> = [0, 1]\<rparr>),
      remote_getCollateralInfo = (\<lambda>h.
        answering [\<lparr>AavegotchiCollateralTypeIO.collateralType = ''0xA'',
                    collateralTypeInfo = ''maDAI'', \<dots> = [0, 1]\<rparr>,
                   \<lparr>AavegotchiCollateralTypeIO.collateralType = ''0xB'',
                    collateralTypeInfo = ''maUSDC'', \<dots> = [0, 1]\<rparr>]),
      remote_getAllCollateralTypes = answering [''0xA'', ''0xB'', ''0xC''],
      remote_collateralBalance = (\<lambda>t s.
        (\<lambda>s'. (Inr \<lparr>collateralType_ret = ''0xA'', escrow_ret = ''0xE'', balance_ret = stake s',
                     \<dots> = [0, 1, 2]\<rparr>, s'), s)),
      remote_increaseStake = (\<lambda>t a g s.
        (\<lambda>s'. (Inr (TransactionResponse ''0x01''), s'\<lparr>stake := stake s' + a\<rparr>),
         s\<lparr>nonce := Suc (nonce s)\<rparr>)),
      remote_decreaseStake = (\<lambda>t a g s.
        (\<lambda>s'. if a \<le> stake s'
               then (Inr (TransactionResponse ''0x02''), s'\<lparr>stake := stake s' - a\<rparr>)
               else (Inl revert_error, s'),
         s\<lparr>nonce := Suc (nonce s)\<rparr>)),
      remote_decreaseAndDestroy = (\<lambda>t a g s.
        (\<lambda>s'. (Inr (TransactionResponse ''0x03''), s'\<lparr>stake := 0\<rparr>),
         s\<lparr>nonce := Suc (nonce s)\<rparr>))\<rparr>"

definition demo :: "(chain, string, nat list) bindings" where
  "demo =
     \<lparr>collateralFacet = demo_contract,
      PROVIDER =
        \<lparr>provider_getGasPrice = answering 30,
         tx_wait = (\<lambda>t. answering (TransactionReceipt 1))\<rparr>,
      console = (\<lambda>l s. s)\<rparr>"

definition unreachable_provider :: "(chain, string, nat list) bindings" where
  "unreachable_provider =
     demo\<lparr>PROVIDER :=
       \<lparr>provider_getGasPrice = rejecting network_error,
        tx_wait = (\<lambda>t. rejecting network_error)\<rparr>\<rparr>"

definition silent_provider :: "(chain, string, nat list) bindings" where
  "silent_provider =
     demo\<lparr>PROVIDER :=
       \<lparr>provider_getGasPrice = rejecting Undefined,
        tx_wait = (\<lambda>t. rejecting Undefined)\<rparr>\<rparr>"

definition genesis :: chain where
  "genesis = \<lparr>stake = 100, nonce = 0\<rparr>"

section \<open>What a run of each wrapper is\<close>

text \<open>
  The five read wrappers share one shape and the three write wrappers another. Each shape
  is run once, for any callee, and each wrapper is an instance. Every call is awaited as
  soon as it is made, so a run is a chain of calls settled one after the other.
\<close>

lemmas async_defs =
  try_catch_def bind_async_def invoke_def await_def return_async_def throw_async_def
  console_log_def throw_new_Error_def rethrown_def settle_def

lemma read_body:
  "try_catch
     (bind_async (invoke callee) (\<lambda>promise.
      bind_async (await promise) (\<lambda>ret.
      return_async (f ret))))
     (\<lambda>error. throw_new_Error error) (M, s) =
   (case settle (callee M) s of
      (Inl e, s') \<Rightarrow> (Inl (rethrown e), (M, s'))
    | (Inr ret, s') \<Rightarrow> (Inr (f ret), (M, s')))"
  by (simp add: async_defs split: prod.splits sum.splits)

lemma write_body:
  "try_catch
     (bind_async (console_log l) (\<lambda>_.
      bind_async (invoke (\<lambda>M. provider_getGasPrice (PROVIDER M))) (\<lambda>promise.
      bind_async (await promise) (\<lambda>gasPrice.
      bind_async (console_log (GasPriceInGwei gasPrice)) (\<lambda>_.
      bind_async (invoke (\<lambda>M. h M gasPrice)) (\<lambda>promise.
      bind_async (await promise) (\<lambda>tx.
      bind_async (invoke (\<lambda>M. tx_wait (PROVIDER M) tx)) (\<lambda>promise.
      bind_async (await promise) (\<lambda>_.
      console_log TransactionValidated)))))))))
     (\<lambda>error. throw_new_Error error) (M, s) =
   (case settle (provider_getGasPrice (PROVIDER M)) (console M l s) of
      (Inl e, s1) \<Rightarrow> (Inl (rethrown e), (M, s1))
    | (Inr g, s1) \<Rightarrow>
        (case settle (h M g) (console M (GasPriceInGwei g) s1) of
           (Inl e, s2) \<Rightarrow> (Inl (rethrown e), (M, s2))
         | (Inr tx, s2) \<Rightarrow>
             (case settle (tx_wait (PROVIDER M) tx) s2 of
                (Inl e, s3) \<Rightarrow> (Inl (rethrown e), (M, s3))
              | (Inr rc, s3) \<Rightarrow> (Inr (), (M, console M TransactionValidated s3)))))"
  by (simp add: async_defs split: prod.splits sum.splits)


lemma settle_observe:
  "settle (observe rq tag call) (s, tr) =
   (case settle call s of
      (Inl e, s') \<Rightarrow> (Inl e, (s', tr @ [Invoke rq, Settle rq (Inl e)]))
    | (Inr a, s') \<Rightarrow> (Inr a, (s', tr @ [Invoke rq, Settle rq (Inr (tag a))])))"
  by (simp add: settle_def observe_def split: prod.splits sum.splits)

lemmas wrapper_defs = collaterals_def collateralInfo_def getCollateralInfo_def
  getAllCollateralTypes_def collateralBalance_def increaseStake_def decreaseStake_def
  decreaseAndDestroy_def

lemmas run_simps = wrapper_defs read_body write_body tagged_def settlement_def
  bindings_after_def world_after_def

lemmas observed_simps = run_simps recorded_def observed_def settle_observe





lemma observation_transparent:
  "settlement (invoke_wrapper c (observed M, (s, []))) = settlement (invoke_wrapper c (M, s))
   \<and> fst (world_after (invoke_wrapper c (observed M, (s, [])))) =
       world_after (invoke_wrapper c (M, s))"
  by (cases c) (simp_all add: observed_simps split: prod.splits sum.splits)

lemma settlement_from_responses:
  "settlement (invoke_wrapper c (M, s)) =
    (case last (responses (recorded c M s)) of
       Inl e \<Rightarrow> Inl (rethrown e)
     | Inr (Addresses ret) \<Rightarrow> Inr (ReturnedAddresses ret)
     | Inr (Struct ret) \<Rightarrow>
         Inr (ReturnedInfo
           \<lparr>AavegotchiCollateralTypeIO.collateralType = AavegotchiCollateralTypeIO.collateralType ret,
            collateralTypeInfo = collateralTypeInfo ret\<rparr>)
     | Inr (Structs ret) \<Rightarrow>
         Inr (ReturnedInfos (map (\<lambda>c.
           \<lparr>AavegotchiCollateralTypeIO.collateralType = AavegotchiCollateralTypeIO.collateralType c,
            collateralTypeInfo = collateralTypeInfo c\<rparr>) ret))
     | Inr (BalanceTuple ret) \<Rightarrow>
         Inr (ReturnedBalance
           \<lparr>collateral_balance.collateralType = collateralType_ret ret,
            escrow = escrow_ret ret, balance = balance_ret ret\<rparr>)
     | Inr _ \<Rightarrow> Inr ReturnedVoid)"
  by (cases c) (simp_all add: observed_simps split: prod.splits sum.splits)

lemma bindings_untouched: "bindings_after (invoke_wrapper c (M, s)) = M"
  by (cases c) (simp_all add: run_simps split: prod.splits sum.splits)

lemma more_ignored:
  "settlement (invoke_wrapper c (M\<lparr>bindings.more := z\<rparr>, s)) = settlement (invoke_wrapper c (M, s))
   \<and> world_after (invoke_wrapper c (M\<lparr>bindings.more := z\<rparr>, s)) =
       world_after (invoke_wrapper c (M, s))"
  by (cases c) (simp_all add: run_simps split: prod.splits sum.splits)

lemma write_fulfilment:
  "is_write c \<Longrightarrow>
     (case settlement (invoke_wrapper c (M, s)) of
        Inl e \<Rightarrow> True
      | Inr v \<Rightarrow> v = ReturnedVoid
          \<and> list_ex is_contract_settled (recorded c M s)
          \<and> list_ex is_wait_settled (recorded c M s))"
  by (cases c) (simp_all add: observed_simps split: prod.splits sum.splits)


lemma settle_answering [simp]: "settle (answering a) s = (Inr a, s)"
  by (simp add: settle_def answering_def)

lemma settle_rejecting [simp]: "settle (rejecting e) s = (Inl e, s)"
  by (simp add: settle_def rejecting_def)

lemma settle_pair: "settle (\<lambda>s. (P s, F s)) s0 = P s0 (F s0)"
  by (simp add: settle_def)

lemmas demo_simps = observed_simps demo_def demo_contract_def unreachable_provider_def
  silent_provider_def genesis_def settle_pair

section \<open>Arguments\<close>

text \<open>
  C1, as the claim states it: whatever its arguments, a wrapper passes them to the contract
  method of its name. It fails: behind a provider that cannot be reached,
  \<^verbatim>\<open>decreaseAndDestroy(7, 8)\<close> passes nothing to any contract method.
\<close>

theorem arguments_always_passed_counterexample:
  "contract_invocations (recorded (Call_decreaseAndDestroy 7 8) unreachable_provider genesis) = []"
  by (simp add: demo_simps)

text \<open>
  C1, amended. Whenever a wrapper calls the contract, it calls the method of its own name
  with its own arguments, unchanged and in order, whatever they are: nothing is checked or
  rewritten first. A read wrapper always makes this one call, with exactly its arguments. A
  write wrapper makes it once its gas price query has been answered, with its arguments
  followed by the overrides object that holds the answered price, and makes no contract call
  when that query is rejected. The calls are those that the environment received.
\<close>

theorem wrapper_passes_arguments:
  "(\<not> is_write c \<longrightarrow>
      contract_invocations (recorded c M s) = [(wrapper_name c, map Number (wrapper_args c))])
   \<and> (is_write c \<longrightarrow>
        contract_invocations (recorded c M s) =
          map (\<lambda>g. (wrapper_name c, map Number (wrapper_args c) @ [Overrides g]))
            (gas_prices_answered (recorded c M s)))"
  by (cases c) (simp_all add: observed_simps split: prod.splits sum.splits)

theorem wrapper_passes_arguments_witness:
  "contract_invocations (recorded (Call_collateralInfo 1 2) demo genesis) =
     [(''collateralInfo'', [Number 1, Number 2])]
   \<and> contract_invocations (recorded (Call_increaseStake 7 5) demo genesis) =
       [(''increaseStake'', [Number 7, Number 5, Overrides 30])]"
proof -
  have r: "\<not> is_write (Call_collateralInfo 1 2)" and w: "is_write (Call_increaseStake 7 5)"
    by simp_all
  have g: "gas_prices_answered (recorded (Call_increaseStake 7 5) demo genesis) = [30]"
    by (simp add: demo_simps)
  show ?thesis
    using r w g
      wrapper_passes_arguments [where c = "Call_collateralInfo 1 2" and M = demo and s = genesis]
      wrapper_passes_arguments [where c = "Call_increaseStake 7 5" and M = demo and s = genesis]
    by simp
qed

section \<open>Errors\<close>






section \<open>Gas price\<close>

text \<open>
  C3, as the claim states it: no wrapper queries or sets a gas price. It fails: on the demo
  chain \<^verbatim>\<open>increaseStake(7, 5)\<close> asks the provider for the gas price and submits its
  transaction with that price set.
\<close>

theorem gas_price_untouched_counterexample:
  "gas_price_queries (recorded (Call_increaseStake 7 5) demo genesis) \<noteq> 0
   \<and> gas_price_overrides (recorded (Call_increaseStake 7 5) demo genesis) \<noteq> []"
  by (simp add: demo_simps gas_price_overrides_def)

text \<open>
  C3, amended. No wrapper computes a gas price and none makes a remote request twice. Each
  write wrapper asks the provider for the current gas price exactly once, and the gas
  prices that the contract receives from it are exactly the prices that the provider
  answered: the answered price, unchanged, on the one transaction it submits, and none when
  the query is rejected. A read wrapper neither queries nor sets a gas price.
\<close>

theorem gas_price_queried_and_set:
  "(is_write c \<longrightarrow>
      gas_price_queries (recorded c M s) = 1
      \<and> gas_price_overrides (recorded c M s) = gas_prices_answered (recorded c M s))
   \<and> (\<not> is_write c \<longrightarrow>
        gas_price_queries (recorded c M s) = 0 \<and> gas_price_overrides (recorded c M s) = [])
   \<and> length (contract_invocations (recorded c M s)) \<le> 1
   \<and> distinct (invoked (recorded c M s))"
  by (cases c) (simp_all add: observed_simps gas_price_overrides_def split: prod.splits sum.splits)

theorem gas_price_queried_and_set_witness:
  "gas_price_queries (recorded (Call_decreaseAndDestroy 7 8) demo genesis) = 1
   \<and> gas_price_overrides (recorded (Call_decreaseAndDestroy 7 8) demo genesis) = [30]
   \<and> gas_price_queries (recorded (Call_collateralBalance 7) demo genesis) = 0
   \<and> gas_price_overrides (recorded (Call_collateralBalance 7) demo genesis) = []"
proof -
  have w: "is_write (Call_decreaseAndDestroy 7 8)" and r: "\<not> is_write (Call_collateralBalance 7)"
    by simp_all
  have g: "gas_prices_answered (recorded (Call_decreaseAndDestroy 7 8) demo genesis) = [30]"
    by (simp add: demo_simps)
  show ?thesis
    using w r g
      gas_price_queried_and_set
        [where c = "Call_decreaseAndDestroy 7 8" and M = demo and s = genesis]
      gas_price_queried_and_set
        [where c = "Call_collateralBalance 7" and M = demo and s = genesis]
    by simp
qed

section \<open>Results\<close>

text \<open>
  C4. A read wrapper returns what the remote call answered: \<^verbatim>\<open>collaterals\<close> and
  \<^verbatim>\<open>getAllCollateralTypes\<close> return the array received, unchanged; \<^verbatim>\<open>collateralInfo\<close>
  returns an object whose two fields are those of the response; \<^verbatim>\<open>getCollateralInfo\<close>
  returns an array as long as the response, whose element at each index is the response's
  element at that index reduced to the fields \<^verbatim>\<open>collateralType\<close> and
  \<^verbatim>\<open>collateralTypeInfo\<close>.
\<close>

theorem read_wrappers_return_response:
  "(fst (settle (remote_collaterals (collateralFacet M) hauntId) s) = Inr ret1 \<longrightarrow>
      settlement (collaterals hauntId (M, s)) = Inr ret1)
   \<and> (fst (settle (remote_getAllCollateralTypes (collateralFacet M)) s) = Inr ret2 \<longrightarrow>
        settlement (getAllCollateralTypes (M, s)) = Inr ret2)
   \<and> (fst (settle (remote_collateralInfo (collateralFacet M) hauntId collateralId) s) = Inr ret3 \<longrightarrow>
        (\<exists>v. settlement (collateralInfo hauntId collateralId (M, s)) = Inr v
           \<and> AavegotchiCollateralTypeIO.collateralType v = AavegotchiCollateralTypeIO.collateralType ret3
           \<and> collateralTypeInfo v = collateralTypeInfo ret3))
   \<and> (fst (settle (remote_getCollateralInfo (collateralFacet M) hauntId) s) = Inr ret4 \<longrightarrow>
        (\<exists>vs. settlement (getCollateralInfo hauntId (M, s)) = Inr vs
           \<and> length vs = length ret4
           \<and> (\<forall>i < length ret4.
                 vs ! i = \<lparr>AavegotchiCollateralTypeIO.collateralType =
                             AavegotchiCollateralTypeIO.collateralType (ret4 ! i),
                           collateralTypeInfo = collateralTypeInfo (ret4 ! i)\<rparr>)))"
  by (auto simp add: run_simps split: prod.splits sum.splits)

theorem read_wrappers_return_response_witness:
  "settlement (collaterals 1 (demo, genesis)) = Inr [''0xA'', ''0xB'']
   \<and> settlement (getAllCollateralTypes (demo, genesis)) = Inr [''0xA'', ''0xB'', ''0xC'']
   \<and> (\<exists>v. settlement (collateralInfo 1 2 (demo, genesis)) = Inr v
          \<and> AavegotchiCollateralTypeIO.collateralType v = ''0xA''
          \<and> collateralTypeInfo v = ''maDAI'')
   \<and> (\<exists>vs. settlement (getCollateralInfo 1 (demo, genesis)) = Inr vs
          \<and> length vs = 2
          \<and> vs ! 1 = \<lparr>AavegotchiCollateralTypeIO.collateralType = ''0xB'',
                       collateralTypeInfo = ''maUSDC''\<rparr>)"
proof -
  let ?a = "\<lparr>AavegotchiCollateralTypeIO.collateralType = ''0xA'', collateralTypeInfo = ''maDAI'',
             \<dots> = [0, 1 :: nat]\<rparr>"
  let ?b = "\<lparr>AavegotchiCollateralTypeIO.collateralType = ''0xB'', collateralTypeInfo = ''maUSDC'',
             \<dots> = [0, 1 :: nat]\<rparr>"
  have h1: "fst (settle (remote_collaterals (collateralFacet demo) 1) genesis) =
        Inr [''0xA'', ''0xB'']"
    and h2: "fst (settle (remote_getAllCollateralTypes (collateralFacet demo)) genesis) =
        Inr [''0xA'', ''0xB'', ''0xC'']"
    and h3: "fst (settle (remote_collateralInfo (collateralFacet demo) 1 2) genesis) = Inr ?a"
    and h4: "fst (settle (remote_getCollateralInfo (collateralFacet demo) 1) genesis) =
        Inr [?a, ?b]"
    by (simp_all add: demo_def demo_contract_def)
  from h1 h2 h3 h4
    read_wrappers_return_response
      [where M = demo and hauntId = 1 and collateralId = 2 and s = genesis
         and ?ret1.0 = "[''0xA'', ''0xB'']" and ?ret2.0 = "[''0xA'', ''0xB'', ''0xC'']"
         and ?ret3.0 = ?a and ?ret4.0 = "[?a, ?b]"]
  show ?thesis by auto
qed

text \<open>
  C8. Whenever the remote call succeeds, \<^verbatim>\<open>collateralBalance\<close> returns an object of
  exactly three fields, \<^verbatim>\<open>collateralType\<close>, \<^verbatim>\<open>escrow\<close> and \<^verbatim>\<open>balance\<close>, holding the
  response's \<^verbatim>\<open>collateralType_\<close>, \<^verbatim>\<open>escrow_\<close> and \<^verbatim>\<open>balance_\<close>; the balance is the
  value received, not converted.
\<close>

theorem collateralBalance_renames_fields:
  "fst (settle (remote_collateralBalance (collateralFacet M) tokenId) s) = Inr ret \<Longrightarrow>
   settlement (collateralBalance tokenId (M, s)) =
     Inr \<lparr>collateral_balance.collateralType = collateralType_ret ret,
          escrow = escrow_ret ret, balance = balance_ret ret\<rparr>"
  by (auto simp add: run_simps split: prod.splits sum.splits)

theorem collateralBalance_renames_fields_witness:
  "settlement (collateralBalance 7 (demo, genesis)) =
     Inr \<lparr>collateral_balance.collateralType = ''0xA'', escrow = ''0xE'', balance = 100\<rparr>"
proof -
  have "fst (settle (remote_collateralBalance (collateralFacet demo) 7) genesis) =
      Inr \<lparr>collateralType_ret = ''0xA'', escrow_ret = ''0xE'', balance_ret = 100,
           \<dots> = [0, 1, 2 :: nat]\<rparr>"
    by (simp add: demo_def demo_contract_def genesis_def settle_pair)
  from collateralBalance_renames_fields [OF this] show ?thesis
    by simp
qed

text \<open>
  C10. A write wrapper that succeeds resolves with no value: the transaction response and
  the receipt, though the environment produced both, are not handed to the caller.
\<close>

theorem write_fulfils_with_no_value:
  assumes "is_write c" and "settlement (invoke_wrapper c (M, s)) = Inr v"
  shows "v = ReturnedVoid
    \<and> list_ex is_contract_settled (recorded c M s)
    \<and> list_ex is_wait_settled (recorded c M s)"
  using write_fulfilment [OF assms(1), of M s] assms(2) by simp

theorem write_fulfils_with_no_value_witness:
  "settlement (invoke_wrapper (Call_increaseStake 7 5) (demo, genesis)) = Inr ReturnedVoid
   \<and> list_ex is_wait_settled (recorded (Call_increaseStake 7 5) demo genesis)"
proof -
  have w: "is_write (Call_increaseStake 7 5)"
    by simp
  obtain v where v: "settlement (invoke_wrapper (Call_increaseStake 7 5) (demo, genesis)) = Inr v"
    by (simp add: demo_simps)
  from write_fulfils_with_no_value [OF w v] v show ?thesis
    by simp
qed

section \<open>Order and number of the remote calls\<close>

text \<open>
  C5. In a write wrapper the remote calls are awaited one after the other. As the
  environment sees it: every request is settled before the wrapper does anything else, so
  no two are under way together; the contract write is not called before the gas price
  query has been answered; \<^verbatim>\<open>tx.wait\<close> is not called before the contract write has been
  answered; and the wrapper fulfils only after \<^verbatim>\<open>tx.wait\<close> has been answered, having made
  the gas price query, the contract write with the answered price, and the wait on the
  transaction that the write returned, in this order.
\<close>

theorem write_awaits_sequentially:
  "is_write c \<Longrightarrow>
     one_at_a_time (recorded c M s)
     \<and> not_before is_gas_price_settled is_contract_invoke (recorded c M s)
     \<and> not_before is_contract_settled is_wait_invoke (recorded c M s)
     \<and> (\<not> isl (settlement (invoke_wrapper c (M, s))) \<longrightarrow>
          list_ex is_wait_settled (recorded c M s)
          \<and> (\<exists>g tx rc.
                invoked (recorded c M s) =
                  [GetGasPrice,
                   ContractCall (wrapper_name c) (map Number (wrapper_args c) @ [Overrides g]),
                   TxWait tx]
                \<and> responses (recorded c M s) =
                    [Inr (GasPrice g), Inr (Submitted tx), Inr (Mined rc)]))"
  by (cases c) (simp_all add: observed_simps split: prod.splits sum.splits)

theorem write_awaits_sequentially_witness:
  "one_at_a_time (recorded (Call_decreaseStake 7 5) demo genesis)
   \<and> not_before is_gas_price_settled is_contract_invoke
       (recorded (Call_decreaseStake 7 5) demo genesis)
   \<and> not_before is_contract_settled is_wait_invoke
       (recorded (Call_decreaseStake 7 5) demo genesis)
   \<and> list_ex is_wait_settled (recorded (Call_decreaseStake 7 5) demo genesis)"
proof -
  have w: "is_write (Call_decreaseStake 7 5)"
    by simp
  have f: "\<not> isl (settlement (invoke_wrapper (Call_decreaseStake 7 5) (demo, genesis)))"
    by (simp add: demo_simps)
  from write_awaits_sequentially [OF w, of demo genesis] f show ?thesis
    by blast
qed

text \<open>
  C6, as the claim states it: every invocation of a wrapper calls the contract method
  exactly once. It fails: behind a provider that cannot be reached,
  \<^verbatim>\<open>increaseStake(7, 5)\<close> rejects on the gas price query and never calls the contract.
\<close>

theorem invoked_exactly_once_counterexample:
  "length (contract_invocations (recorded (Call_increaseStake 7 5) unreachable_provider genesis))
     \<noteq> 1"
  by (simp add: demo_simps)

text \<open>
  C6, amended. In one invocation of a wrapper the environment receives at most one call of
  the contract method and no request twice, on failure as on success: nothing is retried. A
  read wrapper calls the method exactly once. A write wrapper asks for the gas price exactly
  once and calls the method exactly once when that query is answered, and not at all when
  it is rejected.
\<close>

theorem invoked_at_most_once:
  "length (contract_invocations (recorded c M s)) \<le> 1
   \<and> distinct (invoked (recorded c M s))
   \<and> (\<not> is_write c \<longrightarrow> length (contract_invocations (recorded c M s)) = 1)
   \<and> (is_write c \<longrightarrow>
        gas_price_queries (recorded c M s) = 1
        \<and> length (contract_invocations (recorded c M s)) =
            length (gas_prices_answered (recorded c M s)))"
  by (cases c) (simp_all add: observed_simps split: prod.splits sum.splits)

theorem invoked_at_most_once_witness:
  "length (contract_invocations (recorded (Call_collaterals 1) demo genesis)) = 1
   \<and> length (contract_invocations (recorded (Call_decreaseStake 7 500) demo genesis)) = 1
   \<and> length (contract_invocations
        (recorded (Call_decreaseStake 7 500) unreachable_provider genesis)) = 0"
proof -
  have r: "\<not> is_write (Call_collaterals 1)" and w: "is_write (Call_decreaseStake 7 500)"
    by simp_all
  have g: "gas_prices_answered (recorded (Call_decreaseStake 7 500) demo genesis) = [30]"
    and u: "gas_prices_answered
        (recorded (Call_decreaseStake 7 500) unreachable_provider genesis) = []"
    by (simp_all add: demo_simps)
  show ?thesis
    using r w g u
      invoked_at_most_once [where c = "Call_collaterals 1" and M = demo and s = genesis]
      invoked_at_most_once [where c = "Call_decreaseStake 7 500" and M = demo and s = genesis]
      invoked_at_most_once
        [where c = "Call_decreaseStake 7 500" and M = unreachable_provider and s = genesis]
    by simp
qed

section \<open>Statelessness\<close>

text \<open>
  C7. The wrappers keep no state and cache nothing. A wrapper leaves every binding of the
  module as it found it, whatever else the module might hold besides its contract binding,
  and its result does not depend on anything the module might hold besides; so an
  invocation hands the next one the module it was given, and the next one runs as if the
  first had not been. Two invocations of a wrapper with the same arguments, in any two
  environments and worlds, settle equally whenever their remote calls are answered equally.
\<close>

theorem wrappers_stateless:
  fixes M :: "('s, 'i, 'm, 'z) bindings_scheme"
    and M1 :: "('t, 'i, 'm) bindings" and M2 :: "('u, 'i, 'm) bindings"
  shows "bindings_after (invoke_wrapper c (M, s)) = M
    \<and> settlement (invoke_wrapper c (M\<lparr>bindings.more := z\<rparr>, s)) =
        settlement (invoke_wrapper c (M, s))
    \<and> world_after (invoke_wrapper c (M\<lparr>bindings.more := z\<rparr>, s)) =
        world_after (invoke_wrapper c (M, s))
    \<and> invoke_wrapper c' (bindings_after (invoke_wrapper c (M, s)), w) = invoke_wrapper c' (M, w)
    \<and> (responses (recorded c M1 s1) = responses (recorded c M2 s2) \<longrightarrow>
          settlement (invoke_wrapper c (M1, s1)) = settlement (invoke_wrapper c (M2, s2)))"
  using bindings_untouched [where c = c and M = M and s = s]
    more_ignored [where c = c and M = M and z = z and s = s]
    settlement_from_responses [where c = c and M = M1 and s = s1]
    settlement_from_responses [where c = c and M = M2 and s = s2]
  by simp

theorem wrappers_stateless_witness:
  "world_after (invoke_wrapper (Call_decreaseStake 7 5)
      (demo, world_after (invoke_wrapper (Call_increaseStake 7 5) (demo, genesis)))) =
     \<lparr>stake = 100, nonce = 2\<rparr>
   \<and> settlement (invoke_wrapper (Call_collateralBalance 7) (demo, genesis)) =
       settlement (invoke_wrapper (Call_collateralBalance 7) (demo, \<lparr>stake = 100, nonce = 2\<rparr>))"
proof -
  have a: "world_after (invoke_wrapper (Call_decreaseStake 7 5)
      (demo, world_after (invoke_wrapper (Call_increaseStake 7 5) (demo, genesis)))) =
      \<lparr>stake = 100, nonce = 2\<rparr>"
    by (simp add: demo_simps)
  have "responses (recorded (Call_collateralBalance 7) demo genesis) =
      responses (recorded (Call_collateralBalance 7) demo \<lparr>stake = 100, nonce = 2\<rparr>)"
    by (simp add: demo_simps)
  with wrappers_stateless
    [where c = "Call_collateralBalance 7" and c' = "Call_collateralBalance 7"
       and M = demo and s = genesis and z = "()" and w = genesis
       and ?M1.0 = demo and ?s1.0 = genesis
       and ?M2.0 = demo and ?s2.0 = "\<lparr>stake = 100, nonce = 2\<rparr>"]
  have "settlement (invoke_wrapper (Call_collateralBalance 7) (demo, genesis)) =
      settlement (invoke_wrapper (Call_collateralBalance 7) (demo, \<lparr>stake = 100, nonce = 2\<rparr>))"
    by blast
  with a show ?thesis
    by simp
qed

end
